theory Spec2Isabelle
  imports Complex_Main "HOL-Library.Sublist"
begin

section \<open>Strings\<close>

text \<open>
  A Python \<^verbatim>\<open>str\<close> is a sequence of Unicode code points, so a string is a list of
  naturals here. \<open>cps\<close> turns an ASCII literal into its code points.
\<close>

definition cps :: "string \<Rightarrow> nat list" where
  "cps s = map of_char s"

text \<open>
  \<^verbatim>\<open>str.lower()\<close>. On ASCII and Latin-1 (code points below 256) the mapping is written
  out: \<^verbatim>\<open>A-Z\<close> and U+00C0..U+00DE except U+00D7 move up by 32, everything else stays.
  Above Latin-1 the result comes from the Unicode tables of the interpreter, and may depend
  on the neighbouring characters (final sigma) or be several code points long (U+0130);
  that part is the parameter \<open>lo\<close>, which receives the whole string and the position.
\<close>

definition latin1_lower :: "nat \<Rightarrow> nat" where
  "latin1_lower c =
     (if (65 \<le> c \<and> c \<le> 90) \<or> (192 \<le> c \<and> c \<le> 222 \<and> c \<noteq> 215) then c + 32 else c)"

definition lower_at :: "(nat list \<Rightarrow> nat \<Rightarrow> nat list) \<Rightarrow> nat list \<Rightarrow> nat \<Rightarrow> nat list" where
  "lower_at lo s i = (if s ! i < 256 then [latin1_lower (s ! i)] else lo s i)"

definition py_lower :: "(nat list \<Rightarrow> nat \<Rightarrow> nat list) \<Rightarrow> nat list \<Rightarrow> nat list" where
  "py_lower lo s = concat (map (lower_at lo s) [0..<length s])"

text \<open>\<^verbatim>\<open>sub in s\<close> on strings: \<open>sub\<close> occurs as a contiguous block of \<open>s\<close>.\<close>

fun py_in :: "nat list \<Rightarrow> nat list \<Rightarrow> bool" where
  "py_in sub [] = (sub = [])"
| "py_in sub (c # cs) = (prefix sub (c # cs) \<or> py_in sub cs)"

text \<open>
  \<^verbatim>\<open>\s\<close> in a \<^verbatim>\<open>str\<close> pattern of \<^verbatim>\<open>re\<close>: the Unicode white space, which is tab to carriage
  return, the separators U+001C..U+001F, space, U+0085, U+00A0, U+1680, U+2000..U+200A,
  U+2028, U+2029, U+202F, U+205F and U+3000.
\<close>

definition is_space :: "nat \<Rightarrow> bool" where
  "is_space c =
     ((9 \<le> c \<and> c \<le> 13) \<or> (28 \<le> c \<and> c \<le> 32) \<or> c = 133 \<or> c = 160 \<or> c = 5760 \<or>
      (8192 \<le> c \<and> c \<le> 8202) \<or> c = 8232 \<or> c = 8233 \<or> c = 8239 \<or> c = 8287 \<or> c = 12288)"

text \<open>
  \<^verbatim>\<open>re.sub(r'[class]+', rep, s)\<close> for a character class \<open>p\<close>: scanning from the left,
  each longest run of class characters is one match and is replaced by \<open>rep\<close>.
\<close>

function re_sub_runs :: "(nat \<Rightarrow> bool) \<Rightarrow> nat list \<Rightarrow> nat list \<Rightarrow> nat list" where
  "re_sub_runs p rep [] = []"
| "re_sub_runs p rep (c # cs) =
     (if p c then rep @ re_sub_runs p rep (dropWhile p cs) else c # re_sub_runs p rep cs)"
  by pat_completeness auto
termination
  by (relation "measure (\<lambda>(p, rep, s). length s)") (auto simp: length_dropWhile_le less_Suc_eq_le)

text \<open>\<^verbatim>\<open>re.sub(r'[class]', '', s)\<close>: every character of the class is deleted.\<close>

definition re_delete :: "(nat \<Rightarrow> bool) \<Rightarrow> nat list \<Rightarrow> nat list" where
  "re_delete p s = filter (\<lambda>c. \<not> p c) s"

text \<open>\<^verbatim>\<open>s.strip(chars)\<close>.\<close>

definition py_strip :: "nat list \<Rightarrow> nat list \<Rightarrow> nat list" where
  "py_strip chars s =
     rev (dropWhile (\<lambda>c. c \<in> set chars) (rev (dropWhile (\<lambda>c. c \<in> set chars) s)))"


section \<open>Topic names (\<^verbatim>\<open>app.py\<close>, \<^verbatim>\<open>sanitize_topic\<close>)\<close>

text \<open>The class \<^verbatim>\<open>[\s\-.,!?]\<close>.\<close>

definition is_separator :: "nat \<Rightarrow> bool" where
  "is_separator c = (is_space c \<or> c \<in> set (cps ''-.,!?''))"

text \<open>The class \<^verbatim>\<open>[a-z0-9_]\<close>, whose complement the second substitution deletes.\<close>

definition is_topic_char :: "nat \<Rightarrow> bool" where
  "is_topic_char c = ((97 \<le> c \<and> c \<le> 122) \<or> (48 \<le> c \<and> c \<le> 57) \<or> c = 95)"

definition sanitize_topic :: "(nat list \<Rightarrow> nat \<Rightarrow> nat list) \<Rightarrow> nat list \<Rightarrow> nat list" where
  "sanitize_topic lo name =
     (let safe = re_sub_runs is_separator (cps ''_'') (py_lower lo name);
          safe = re_delete (\<lambda>c. \<not> is_topic_char c) safe
      in py_strip (cps ''_'') safe)"

subsection \<open>The sanitizer as the specification words it\<close>

text \<open>
  The specification describes the result through the maximal runs of the lower-cased
  name. \<open>runs p s\<close> cuts \<open>s\<close> into its maximal blocks of characters that agree on \<open>p\<close>;
  \<open>spec_replace_runs\<close> puts one underscore for each block of separators;
  \<open>spec_strip\<close> removes the underscores counted at the two ends.
\<close>

fun runs :: "('a \<Rightarrow> bool) \<Rightarrow> 'a list \<Rightarrow> 'a list list" where
  "runs p [] = []"
| "runs p (x # xs) =
     (case runs p xs of
        [] \<Rightarrow> [[x]]
      | r # rs \<Rightarrow> if p x = p (hd r) then (x # r) # rs else [x] # r # rs)"

definition spec_replace_runs :: "(nat \<Rightarrow> bool) \<Rightarrow> nat list \<Rightarrow> nat list" where
  "spec_replace_runs p s = concat (map (\<lambda>r. if p (hd r) then cps ''_'' else r) (runs p s))"

definition spec_strip :: "nat \<Rightarrow> nat list \<Rightarrow> nat list" where
  "spec_strip u s =
     (let lead = length (takeWhile (\<lambda>c. c = u) s);
          trail = length (takeWhile (\<lambda>c. c = u) (rev s))
      in drop lead (take (length s - trail) s))"

definition sanitize_spec :: "(nat list \<Rightarrow> nat \<Rightarrow> nat list) \<Rightarrow> nat list \<Rightarrow> nat list" where
  "sanitize_spec lo name =
     spec_strip 95 (filter is_topic_char (spec_replace_runs is_separator (py_lower lo name)))"


section \<open>Condition icons\<close>

text \<open>
  \<^verbatim>\<open>app.py\<close>, \<^verbatim>\<open>WEATHER_ICONS\<close>: the three entries of the dictionary, by key, and the
  condition of the placeholder reading (U+2753).
\<close>

definition WEATHER_ICONS_sunny :: "nat list" where
  "WEATHER_ICONS_sunny = [9728, 65039]"

definition WEATHER_ICONS_partly_cloudy :: "nat list" where
  "WEATHER_ICONS_partly_cloudy = [127780, 65039]"

definition WEATHER_ICONS_rainy :: "nat list" where
  "WEATHER_ICONS_rainy = [127783, 65039]"

definition ICON_placeholder :: "nat list" where
  "ICON_placeholder = [10067]"

text \<open>
  \<^verbatim>\<open>weather_service.py\<close>, lines 101 to 118: the eight string literals assigned to
  \<^verbatim>\<open>data["condition"]\<close>, as the code points the file stores, named by the category of
  the branch.
\<close>

definition ICON_thunderstorm :: "nat list" where
  "ICON_thunderstorm = [226, 8250, 710, 239, 184]"

definition ICON_rain :: "nat list" where
  "ICON_rain = [240, 376, 338, 167, 239, 184]"

definition ICON_snow :: "nat list" where
  "ICON_snow = [240, 376, 338, 168, 239, 184]"

definition ICON_fog :: "nat list" where
  "ICON_fog = [240, 376, 338, 171, 239, 184]"

definition ICON_clear :: "nat list" where
  "ICON_clear = [226, 732, 8364, 239, 184]"

definition ICON_partly_cloudy :: "nat list" where
  "ICON_partly_cloudy = [240, 376, 338, 164, 239, 184]"

definition ICON_overcast :: "nat list" where
  "ICON_overcast = [226, 732, 239, 184]"

definition ICON_unknown :: "nat list" where
  "ICON_unknown = [226, 8220]"


section \<open>Classifiers\<close>

text \<open>\<^verbatim>\<open>app.py\<close>, \<^verbatim>\<open>get_weather_condition\<close>. Finite numbers are reals; comparisons are exact.\<close>

definition get_weather_condition :: "real \<Rightarrow> real \<Rightarrow> nat list" where
  "get_weather_condition temp humidity =
     (if temp > 30 \<and> humidity < 50 then WEATHER_ICONS_sunny
      else if humidity > 80 then WEATHER_ICONS_rainy
      else WEATHER_ICONS_partly_cloudy)"

text \<open>
  \<^verbatim>\<open>weather_service.py\<close>, lines 100 to 118 of \<^verbatim>\<open>get_weather\<close>: the chain over the
  lower-cased condition text. \<open>condition_icon\<close> is the chain, \<open>classify_text\<close> puts the
  lower-casing of line 100 in front.
\<close>

definition condition_icon :: "nat list \<Rightarrow> nat list" where
  "condition_icon conditions =
     (if py_in (cps ''thunder'') conditions then ICON_thunderstorm
      else if py_in (cps ''rain'') conditions \<or> py_in (cps ''drizzle'') conditions
              \<or> py_in (cps ''shower'') conditions then ICON_rain
      else if py_in (cps ''snow'') conditions \<or> py_in (cps ''ice'') conditions
              \<or> py_in (cps ''sleet'') conditions then ICON_snow
      else if py_in (cps ''fog'') conditions \<or> py_in (cps ''mist'') conditions
              \<or> py_in (cps ''haze'') conditions then ICON_fog
      else if py_in (cps ''clear'') conditions \<and> \<not> py_in (cps ''cloud'') conditions
           then ICON_clear
      else if py_in (cps ''partly cloudy'') conditions
              \<or> py_in (cps ''scattered clouds'') conditions then ICON_partly_cloudy
      else if py_in (cps ''cloud'') conditions \<or> py_in (cps ''overcast'') conditions
           then ICON_overcast
      else ICON_unknown)"

definition classify_text :: "(nat list \<Rightarrow> nat \<Rightarrow> nat list) \<Rightarrow> nat list \<Rightarrow> nat list" where
  "classify_text lo text = condition_icon (py_lower lo text)"

subsection \<open>The text path as the specification words it\<close>

text \<open>
  An ordered table of tests, each with its category; the first test that holds decides,
  and no match is the unknown category.
\<close>

definition has_any :: "string list \<Rightarrow> nat list \<Rightarrow> bool" where
  "has_any words s = list_ex (\<lambda>w. py_in (cps w) s) words"

definition spec_text_rules :: "((nat list \<Rightarrow> bool) \<times> nat list) list" where
  "spec_text_rules =
     [(has_any [''thunder''], ICON_thunderstorm),
      (has_any [''rain'', ''drizzle'', ''shower''], ICON_rain),
      (has_any [''snow'', ''ice'', ''sleet''], ICON_snow),
      (has_any [''fog'', ''mist'', ''haze''], ICON_fog),
      (\<lambda>s. has_any [''clear''] s \<and> \<not> has_any [''cloud''] s, ICON_clear),
      (has_any [''partly cloudy'', ''scattered clouds''], ICON_partly_cloudy),
      (has_any [''cloud'', ''overcast''], ICON_overcast)]"

fun first_match :: "(('a \<Rightarrow> bool) \<times> 'b) list \<Rightarrow> 'b \<Rightarrow> 'a \<Rightarrow> 'b" where
  "first_match [] dflt s = dflt"
| "first_match ((test, tag) # rules) dflt s = (if test s then tag else first_match rules dflt s)"

definition spec_classify_text :: "(nat list \<Rightarrow> nat \<Rightarrow> nat list) \<Rightarrow> nat list \<Rightarrow> nat list" where
  "spec_classify_text lo text = first_match spec_text_rules ICON_unknown (py_lower lo text)"


section \<open>The weather service (\<^verbatim>\<open>weather_service.py\<close>)\<close>

subsection \<open>Data\<close>

text \<open>
  The value \<^verbatim>\<open>response.json()\<close> returns. An object is the list of its members, looked up
  by key. \<open>JNum\<close> carries the finite numbers (Python \<^verbatim>\<open>int\<close> and \<^verbatim>\<open>float\<close>) as reals.
\<close>

datatype json =
    JNull
  | JBool bool
  | JNum real
  | JStr "nat list"
  | JArr "json list"
  | JObj "(nat list \<times> json) list"

text \<open>
  The exceptions of the modelled code. \<open>HTTPError\<close> is raised by \<^verbatim>\<open>raise_for_status\<close>
  and carries the status code; \<open>TransportError\<close> stands for what \<^verbatim>\<open>requests.get\<close>
  itself raises (connection failure, timeout); \<open>JSONDecodeError\<close> is raised by
  \<^verbatim>\<open>response.json()\<close> on a body that is not JSON; \<open>OverflowError\<close> is raised when
  an \<^verbatim>\<open>int\<close> too large for a \<^verbatim>\<open>float\<close> meets a \<^verbatim>\<open>float\<close> in an arithmetic operation.
\<close>

datatype error =
    HTTPError nat
  | TransportError
  | JSONDecodeError
  | KeyError "nat list"
  | TypeError
  | AttributeError
  | OverflowError
  | IndexError

text \<open>
  \<^verbatim>\<open>isinstance(e, requests.RequestException)\<close>. \<^verbatim>\<open>HTTPError\<close>, the transport errors and
  (since requests 2.27) \<^verbatim>\<open>requests.exceptions.JSONDecodeError\<close> are subclasses.
\<close>

fun is_RequestException :: "error \<Rightarrow> bool" where
  "is_RequestException (HTTPError status) = True"
| "is_RequestException TransportError = True"
| "is_RequestException JSONDecodeError = True"
| "is_RequestException (KeyError k) = False"
| "is_RequestException TypeError = False"
| "is_RequestException AttributeError = False"
| "is_RequestException OverflowError = False"
| "is_RequestException IndexError = False"

text \<open>The normalised dictionary \<^verbatim>\<open>get_weather\<close> returns, with its four keys.\<close>

record reading =
  temperature :: real
  humidity :: real
  wind :: real
  condition :: "nat list"

text \<open>
  Floating-point operations whose results are not the exact real ones: \<^verbatim>\<open>round(x, 1)\<close>
  of a number, multiplication and addition of two floats. They are parameters of the
  model; their results are taken to be finite.
\<close>

record float_ops =
  round1 :: "real \<Rightarrow> real"
  fmul :: "real \<Rightarrow> real \<Rightarrow> real"
  fadd :: "real \<Rightarrow> real \<Rightarrow> real"

text \<open>
  The left operand of \<^verbatim>\<open>x * 1.60934\<close> and of \<^verbatim>\<open>temp + variation\<close>, whose right operand is
  a float. A number is modelled by its real value. A float is smaller in magnitude than
  \<open>FLOAT_LIMIT\<close>, the first value that rounds out of the range of the doubles, and is taken
  as it is; an \<^verbatim>\<open>int\<close> is converted to a float first, which raises \<^verbatim>\<open>OverflowError\<close> from
  that limit on. So a number at or beyond the limit is an \<^verbatim>\<open>int\<close> and the operation raises.
\<close>

definition FLOAT_LIMIT :: real where
  "FLOAT_LIMIT = 2 ^ 1024 - 2 ^ 970"

definition as_float :: "real \<Rightarrow> error + real" where
  "as_float x = (if \<bar>x\<bar> \<ge> FLOAT_LIMIT then Inl OverflowError else Inr x)"

text \<open>
  What the outside world answers to one request: \<^verbatim>\<open>requests.get\<close> raises
  (\<open>NoResponse\<close>), or there is a response with a status code and a body, the body being
  \<open>None\<close> when it is not JSON.
\<close>

datatype http_reply =
    NoResponse
  | Response nat "json option"

text \<open>
  The environment of one call of \<^verbatim>\<open>get_weather\<close>: the clock read at line 62, the answer
  to the request of line 76, the clock read at line 121.
\<close>

record call_env =
  now_check :: real
  reply :: http_reply
  now_store :: real

text \<open>
  The state of a \<^verbatim>\<open>WeatherService\<close>: \<^verbatim>\<open>self._cache\<close>, and the log of the cities for
  which a request was sent (the network effect, made visible).
\<close>

record weather_service =
  cache :: "nat list \<rightharpoonup> real \<times> reading"
  requests :: "nat list list"

text \<open>The second assignment of the class body (line 18) is the one in force.\<close>

definition CACHE_DURATION :: real where
  "CACHE_DURATION = 600"

subsection \<open>Building the reading (lines 89 to 118)\<close>

definition ebind :: "error + 'a \<Rightarrow> ('a \<Rightarrow> error + 'b) \<Rightarrow> error + 'b" where
  "ebind m f = (case m of Inl e \<Rightarrow> Inl e | Inr x \<Rightarrow> f x)"

text \<open>\<^verbatim>\<open>v[key]\<close> with a string key: only a dictionary holding the key answers.\<close>

fun subscript :: "json \<Rightarrow> nat list \<Rightarrow> error + json" where
  "subscript (JObj members) key =
     (case map_of members key of None \<Rightarrow> Inl (KeyError key) | Some v \<Rightarrow> Inr v)"
| "subscript v key = Inl TypeError"

text \<open>
  The operand of \<^verbatim>\<open>round\<close> and of \<^verbatim>\<open>*\<close>: a number, or a boolean counting as 1 or 0;
  anything else makes both raise \<^verbatim>\<open>TypeError\<close>.
\<close>

fun number :: "json \<Rightarrow> error + real" where
  "number (JNum x) = Inr x"
| "number (JBool b) = Inr (if b then 1 else 0)"
| "number v = Inl TypeError"

text \<open>\<^verbatim>\<open>v.lower()\<close>: only a string has the method.\<close>

fun lower_method :: "(nat list \<Rightarrow> nat \<Rightarrow> nat list) \<Rightarrow> json \<Rightarrow> error + nat list" where
  "lower_method lo (JStr s) = Inr (py_lower lo s)"
| "lower_method lo v = Inl AttributeError"

definition build_reading ::
  "(nat list \<Rightarrow> nat \<Rightarrow> nat list) \<Rightarrow> float_ops \<Rightarrow> json \<Rightarrow> error + reading" where
  "build_reading lo fl raw =
     ebind (subscript raw (cps ''currentConditions'')) (\<lambda>current.
     ebind (subscript current (cps ''temp'')) (\<lambda>temp.
     ebind (number temp) (\<lambda>t.
     ebind (subscript current (cps ''humidity'')) (\<lambda>hum.
     ebind (number hum) (\<lambda>h.
     ebind (subscript current (cps ''windspeed'')) (\<lambda>windspeed.
     ebind (number windspeed) (\<lambda>w.
     ebind (as_float w) (\<lambda>speed.
     ebind (subscript current (cps ''conditions'')) (\<lambda>text.
     ebind (lower_method lo text) (\<lambda>conditions.
       Inr \<lparr>temperature = round1 fl t,
            humidity = round1 fl h,
            wind = round1 fl (fmul fl speed (160934 / 100000)),
            condition = condition_icon conditions\<rparr>))))))))))"

subsection \<open>\<^verbatim>\<open>get_weather\<close>\<close>

text \<open>
  Lines 66 to 122: the request, the handler of \<^verbatim>\<open>HTTPError\<close>, the conversion and the
  store into the cache. \<open>cached_data\<close> is the expired entry kept at line 64, if any.
\<close>

definition fetch_from_api ::
  "(nat list \<Rightarrow> nat \<Rightarrow> nat list) \<Rightarrow> float_ops \<Rightarrow> weather_service \<Rightarrow> nat list \<Rightarrow> bool
     \<Rightarrow> reading option \<Rightarrow> call_env \<Rightarrow> (error + reading) \<times> weather_service" where
  "fetch_from_api lo fl sv city use_cache_on_error cached_data env =
     (let sv1 = sv\<lparr>requests := requests sv @ [city]\<rparr> in
      case reply env of
        NoResponse \<Rightarrow> (Inl TransportError, sv1)
      | Response status body \<Rightarrow>
          if 400 \<le> status \<and> status < 600 then
            (case cached_data of
               Some stale \<Rightarrow>
                 if status = 429 \<and> use_cache_on_error then (Inr stale, sv1)
                 else (Inl (HTTPError status), sv1)
             | None \<Rightarrow> (Inl (HTTPError status), sv1))
          else
            (case body of
               None \<Rightarrow> (Inl JSONDecodeError, sv1)
             | Some raw \<Rightarrow>
                 (case build_reading lo fl raw of
                    Inl e \<Rightarrow> (Inl e, sv1)
                  | Inr data \<Rightarrow>
                      (Inr data, sv1\<lparr>cache := (cache sv1)(city \<mapsto> (now_store env, data))\<rparr>))))"

definition get_weather ::
  "(nat list \<Rightarrow> nat \<Rightarrow> nat list) \<Rightarrow> float_ops \<Rightarrow> weather_service \<Rightarrow> nat list \<Rightarrow> bool
     \<Rightarrow> call_env \<Rightarrow> (error + reading) \<times> weather_service" where
  "get_weather lo fl sv city use_cache_on_error env =
     (case cache sv city of
        Some (timestamp, data) \<Rightarrow>
          if now_check env - timestamp < CACHE_DURATION then (Inr data, sv)
          else fetch_from_api lo fl sv city use_cache_on_error (Some data) env
      | None \<Rightarrow> fetch_from_api lo fl sv city use_cache_on_error None env)"

text \<open>\<^verbatim>\<open>fetch(city)\<close> of the specification: the call with the default of the flag.\<close>

definition fetch :: 
  "(nat list \<Rightarrow> nat \<Rightarrow> nat list) \<Rightarrow> float_ops \<Rightarrow> weather_service \<Rightarrow> nat list
     \<Rightarrow> call_env \<Rightarrow> (error + reading) \<times> weather_service" where
  "fetch lo fl sv city env = get_weather lo fl sv city True env"


text \<open>The test of lines 60 to 62: the city has an entry younger than the cache duration.\<close>

definition fresh :: "weather_service \<Rightarrow> nat list \<Rightarrow> call_env \<Rightarrow> bool" where
  "fresh sv city env =
     (case cache sv city of
        None \<Rightarrow> False
      | Some (timestamp, data) \<Rightarrow> now_check env - timestamp < CACHE_DURATION)"


section \<open>The dashboard (\<^verbatim>\<open>app.py\<close>, class \<^verbatim>\<open>WeatherApp\<close>)\<close>

subsection \<open>Data\<close>

definition DEFAULT_HISTORY :: nat where
  "DEFAULT_HISTORY = 60"

text \<open>
  The text of a numeric \<^verbatim>\<open>StringVar\<close> of the table: the two dashes it starts with, or a
  number followed by the unit of its column (\<^verbatim>\<open>f"{t} <unit>"\<close>). The unit is fixed by the
  column and the printing of a float is one to one, so the number stands for the text.
\<close>

datatype cell = Dashes | Shown real

text \<open>The four variables \<^verbatim>\<open>city_data[city]\<close> holds: one row of the table.\<close>

record row =
  row_temp :: cell
  row_humidity :: cell
  row_wind :: cell
  row_condition :: "nat list"

text \<open>The dictionary given to \<^verbatim>\<open>json.dumps\<close> for one message.\<close>

record payload =
  msg_timestamp :: real
  msg_city :: "nat list"
  msg_temperature :: real
  msg_humidity :: real
  msg_wind :: real
  msg_condition :: "nat list"

text \<open>
  What the environment supplies while the loop treats one city: the environment of the
  call of the service, \<^verbatim>\<open>datetime.now()\<close> and \<^verbatim>\<open>random.uniform(-0.2, 0.2)\<close> of
  \<^verbatim>\<open>_append_data\<close>, whether a client is there and connected
  (\<^verbatim>\<open>self.mqtt and self.mqtt.is_connected()\<close>), and the clock of the message.
\<close>

record tick_env =
  call :: call_env
  clock :: real
  jitter :: real
  mqtt_up :: bool
  utc_now :: real

text \<open>
  The fields of a \<^verbatim>\<open>WeatherApp\<close> that the loop reads and writes. The two deques are
  lists, oldest point first. \<open>published\<close> is the log of the messages handed to the
  publishing threads.
\<close>

record app =
  service :: weather_service
  cities :: "nat list list"
  graphed_city :: "nat list"
  city_data :: "nat list \<rightharpoonup> row"
  temp_history :: "real list"
  time_history :: "real list"
  published :: "(nat list \<times> payload) list"

subsection \<open>Operations\<close>

text \<open>
  \<^verbatim>\<open>deque(maxlen=n).append(x)\<close>: the item is added on the right; if the deque is then
  longer than \<open>n\<close>, one item is dropped on the left.
\<close>

definition deque_append :: "nat \<Rightarrow> 'a list \<Rightarrow> 'a \<Rightarrow> 'a list" where
  "deque_append maxlen d x = (let d' = d @ [x] in if length d' > maxlen then tl d' else d')"

text \<open>The dictionary \<^verbatim>\<open>_get_weather_data\<close> returns on a request error (lines 241 to 246).\<close>

definition dummy_data :: reading where
  "dummy_data = \<lparr>temperature = 20, humidity = 50, wind = 0, condition = ICON_placeholder\<rparr>"

text \<open>\<^verbatim>\<open>WeatherApp._get_weather_data\<close>.\<close>

definition get_weather_data ::
  "(nat list \<Rightarrow> nat \<Rightarrow> nat list) \<Rightarrow> float_ops \<Rightarrow> weather_service \<Rightarrow> nat list
     \<Rightarrow> call_env \<Rightarrow> (error + reading) \<times> weather_service" where
  "get_weather_data lo fl sv city env =
     (case get_weather lo fl sv city True env of
        (Inr data, sv') \<Rightarrow> (Inr data, sv')
      | (Inl e, sv') \<Rightarrow>
          if is_RequestException e then (Inr dummy_data, sv') else (Inl e, sv'))"

text \<open>
  \<^verbatim>\<open>WeatherApp._append_data\<close>. The sum \<^verbatim>\<open>temp + variation\<close> raises before anything is
  appended when the temperature is an \<^verbatim>\<open>int\<close> too large for a float.
\<close>

definition append_data :: "float_ops \<Rightarrow> tick_env \<Rightarrow> real \<Rightarrow> app \<Rightarrow> error + app" where
  "append_data fl env t a =
     (let current_time = clock env;
          variation = round1 fl (jitter env)
      in case as_float t of
           Inl e \<Rightarrow> Inl e
         | Inr temp \<Rightarrow>
             (let display_temp = round1 fl (fadd fl temp variation)
              in Inr (a\<lparr>temp_history :=
                           deque_append DEFAULT_HISTORY (temp_history a) display_temp,
                         time_history :=
                           deque_append DEFAULT_HISTORY (time_history a) current_time\<rparr>)))"

text \<open>The row as lines 102 to 105 create it, and as lines 274 to 277 set it.\<close>

definition initial_row :: row where
  "initial_row =
     \<lparr>row_temp = Dashes, row_humidity = Dashes, row_wind = Dashes,
      row_condition = WEATHER_ICONS_partly_cloudy\<rparr>"

definition show_reading :: "reading \<Rightarrow> row" where
  "show_reading data =
     \<lparr>row_temp = Shown (temperature data), row_humidity = Shown (humidity data),
      row_wind = Shown (wind data), row_condition = condition data\<rparr>"

text \<open>Lines 285 to 300: the message of one city, when a connected client is there.\<close>

definition publish_reading ::
  "(nat list \<Rightarrow> nat \<Rightarrow> nat list) \<Rightarrow> tick_env \<Rightarrow> nat list \<Rightarrow> reading \<Rightarrow> app \<Rightarrow> app" where
  "publish_reading lo env city data a =
     (if mqtt_up env then
        a\<lparr>published := published a @
             [(cps ''weather/'' @ sanitize_topic lo city,
               \<lparr>msg_timestamp = utc_now env, msg_city = city,
                msg_temperature = temperature data, msg_humidity = humidity data,
                msg_wind = wind data, msg_condition = condition data\<rparr>)]\<rparr>
      else a)"

text \<open>
  The body of the \<^verbatim>\<open>for\<close> loop of \<^verbatim>\<open>update_loop\<close> (lines 261 to 300) for one city.
  An error inside the \<^verbatim>\<open>try\<close> goes to \<^verbatim>\<open>except Exception\<close>, whose \<^verbatim>\<open>continue\<close>
  leaves the row as it is. What follows the \<^verbatim>\<open>try\<close> is not guarded: the subscript
  \<^verbatim>\<open>self.city_data[city]\<close> can raise \<^verbatim>\<open>KeyError\<close> and \<^verbatim>\<open>_append_data\<close> can raise
  \<^verbatim>\<open>OverflowError\<close>, and either leaves the loop. The result is then \<open>Inl\<close> of the error
  and of the state the object is left in; \<open>Inr\<close> is the state when the body returns.
  Redrawing the chart changes no field of the model.
\<close>

definition update_city ::
  "(nat list \<Rightarrow> nat \<Rightarrow> nat list) \<Rightarrow> float_ops \<Rightarrow> tick_env \<Rightarrow> nat list \<Rightarrow> app
     \<Rightarrow> (error \<times> app) + app" where
  "update_city lo fl env city a =
     (case get_weather_data lo fl (service a) city (call env) of
        (Inl e, sv) \<Rightarrow> Inr (a\<lparr>service := sv\<rparr>)
      | (Inr data, sv) \<Rightarrow>
          (case city_data a city of
             None \<Rightarrow> Inl (KeyError city, a\<lparr>service := sv\<rparr>)
           | Some old \<Rightarrow>
               (let a1 = a\<lparr>service := sv,
                            city_data := (city_data a)(city \<mapsto> show_reading data)\<rparr>
                in if city = graphed_city a1
                   then (case append_data fl env (temperature data) a1 of
                           Inl e \<Rightarrow> Inl (e, a1)
                         | Inr a2 \<Rightarrow> Inr (publish_reading lo env city data a2))
                   else Inr (publish_reading lo env city data a1))))"

text \<open>
  The \<^verbatim>\<open>for\<close> loop over the cities still to treat; \<open>envs k\<close> is the environment of the
  \<open>k\<close>-th city of the tick.
\<close>

fun update_cities ::
  "(nat list \<Rightarrow> nat \<Rightarrow> nat list) \<Rightarrow> float_ops \<Rightarrow> (nat \<Rightarrow> tick_env) \<Rightarrow> nat
     \<Rightarrow> nat list list \<Rightarrow> app \<Rightarrow> (error \<times> app) + app" where
  "update_cities lo fl envs k [] a = Inr a"
| "update_cities lo fl envs k (city # rest) a =
     (case update_city lo fl (envs k) city a of
        Inl raised \<Rightarrow> Inl raised
      | Inr a' \<Rightarrow> update_cities lo fl envs (Suc k) rest a')"

text \<open>\<^verbatim>\<open>WeatherApp.update_loop\<close>: one tick over \<^verbatim>\<open>self.cities\<close>.\<close>

definition update_loop ::
  "(nat list \<Rightarrow> nat \<Rightarrow> nat list) \<Rightarrow> float_ops \<Rightarrow> (nat \<Rightarrow> tick_env) \<Rightarrow> app
     \<Rightarrow> (error \<times> app) + app" where
  "update_loop lo fl envs a = update_cities lo fl envs 0 (cities a) a"

text \<open>
  The ticks that \<^verbatim>\<open>root.after\<close> schedules one after the other: \<open>run_ticks\<close> with \<open>n\<close> is
  the outcome of \<open>n\<close> of them, the \<open>i\<close>-th one in the environment \<open>world i\<close>. A tick that
  raised is not followed by another one, as it did not reach the rescheduling of line
  303: the object stays in the state of the raise.
\<close>

fun run_ticks ::
  "(nat list \<Rightarrow> nat \<Rightarrow> nat list) \<Rightarrow> float_ops \<Rightarrow> (nat \<Rightarrow> nat \<Rightarrow> tick_env) \<Rightarrow> nat
     \<Rightarrow> app \<Rightarrow> (error \<times> app) + app" where
  "run_ticks lo fl world 0 a = Inr a"
| "run_ticks lo fl world (Suc n) a =
     (case run_ticks lo fl world n a of
        Inl raised \<Rightarrow> Inl raised
      | Inr a' \<Rightarrow> update_loop lo fl (world n) a')"

text \<open>The state of the dashboard at the end of a run, raised or not.\<close>

definition final_state :: "(error \<times> app) + app \<Rightarrow> app" where
  "final_state outcome = (case outcome of Inl (e, a) \<Rightarrow> a | Inr a \<Rightarrow> a)"

text \<open>
  \<^verbatim>\<open>WeatherApp.__init__\<close>, lines 91 to 116, for the city names the dialogue returned and
  the service in use: the empty deques, a row for each city, the first city as the city of
  the chart, and the first point of the chart, which is 20.0 when the \<^verbatim>\<open>try\<close> raises.
\<close>

definition init_app ::
  "(nat list \<Rightarrow> nat \<Rightarrow> nat list) \<Rightarrow> float_ops \<Rightarrow> weather_service \<Rightarrow> nat list list
     \<Rightarrow> tick_env \<Rightarrow> error + app" where
  "init_app lo fl sv names env =
     (case names of
        [] \<Rightarrow> Inl IndexError
      | first # others \<Rightarrow>
          (let a = \<lparr>service = sv, cities = names, graphed_city = first,
                    city_data = fold (\<lambda>city rows. rows(city \<mapsto> initial_row)) names Map.empty,
                    temp_history = [], time_history = [], published = []\<rparr>
           in case get_weather_data lo fl sv first (call env) of
                (Inr data, sv') \<Rightarrow>
                  (case append_data fl env (temperature data) (a\<lparr>service := sv'\<rparr>) of
                     Inr a' \<Rightarrow> Inr a'
                   | Inl e \<Rightarrow> append_data fl env 20 (a\<lparr>service := sv'\<rparr>))
              | (Inl e, sv') \<Rightarrow> append_data fl env 20 (a\<lparr>service := sv'\<rparr>)))"



definition history_bounded :: "app \<Rightarrow> bool" where
  "history_bounded a =
     (length (temp_history a) \<le> DEFAULT_HISTORY \<and> length (time_history a) \<le> DEFAULT_HISTORY)"


text \<open>
  The row of a city in the result of the loop body or of a tick; \<open>None\<close> when it raised
  or the city has no row.
\<close>

definition row_after :: "(error \<times> app) + app \<Rightarrow> nat list \<Rightarrow> row option" where
  "row_after result city = (case result of Inl raised \<Rightarrow> None | Inr a \<Rightarrow> city_data a city)"




section \<open>A worked example\<close>

text \<open>
  Concrete values on which the theorems below are run. The strings of the example are
  ASCII, so the lower-casing above Latin-1 is never consulted; \<open>plain_lower\<close> leaves such
  a code point as it is. \<open>decimal_ops\<close> is exact decimal arithmetic; on the numbers of the
  example it gives the decimal numbers that Python prints.
\<close>

definition plain_lower :: "nat list \<Rightarrow> nat \<Rightarrow> nat list" where
  "plain_lower s i = [s ! i]"

definition decimal_ops :: float_ops where
  "decimal_ops =
     \<lparr>round1 = (\<lambda>x. real_of_int (round (10 * x)) / 10), fmul = (\<lambda>x y. x * y),
      fadd = (\<lambda>x y. x + y)\<rparr>"

definition london :: "nat list" where
  "london = cps ''London''"

definition paris :: "nat list" where
  "paris = cps ''Paris''"

definition tokyo :: "nat list" where
  "tokyo = cps ''Tokyo''"

definition london_body :: json where
  "london_body =
     JObj [(cps ''currentConditions'',
            JObj [(cps ''temp'', JNum (25 / 2)), (cps ''humidity'', JNum 60),
                  (cps ''windspeed'', JNum 10),
                  (cps ''conditions'', JStr (cps ''Rain, Overcast''))])]"

definition london_reading :: reading where
  "london_reading =
     \<lparr>temperature = 25 / 2, humidity = 60, wind = 161 / 10, condition = ICON_rain\<rparr>"

definition tokyo_body :: json where
  "tokyo_body =
     JObj [(cps ''currentConditions'',
            JObj [(cps ''temp'', JNum 21), (cps ''humidity'', JNum 40),
                  (cps ''windspeed'', JNum 0), (cps ''conditions'', JStr (cps ''Clear''))])]"


definition empty_service :: weather_service where
  "empty_service = \<lparr>cache = Map.empty, requests = []\<rparr>"

definition london_cached :: weather_service where
  "london_cached = \<lparr>cache = [london \<mapsto> (1001, london_reading)], requests = [london]\<rparr>"

text \<open>A call at time \<open>t\<close> that is answered by \<open>r\<close> one second later.\<close>

definition answer_at :: "real \<Rightarrow> http_reply \<Rightarrow> call_env" where
  "answer_at t r = \<lparr>now_check = t, reply = r, now_store = t + 1\<rparr>"

text \<open>
  One city of a tick at time \<open>t\<close>: the answer of the provider, no jitter, no client
  connected.
\<close>

definition city_env :: "real \<Rightarrow> http_reply \<Rightarrow> tick_env" where
  "city_env t r =
     \<lparr>call = answer_at t r, clock = t, jitter = 0, mqtt_up = False, utc_now = t\<rparr>"

text \<open>
  A dashboard of three cities as \<open>init_app\<close> leaves it when the first request (for
  London, at time 0) fails in transport, and a tick in which London and Tokyo are
  answered and the request for Paris fails in transport.
\<close>

definition three_cities :: app where
  "three_cities =
     \<lparr>service = \<lparr>cache = Map.empty, requests = [london]\<rparr>,
      cities = [london, paris, tokyo], graphed_city = london,
      city_data = [london \<mapsto> initial_row, paris \<mapsto> initial_row, tokyo \<mapsto> initial_row],
      temp_history = [20], time_history = [0], published = []\<rparr>"

definition paris_fails :: "nat \<Rightarrow> tick_env" where
  "paris_fails k =
     (if k = 0 then city_env 1000 (Response 200 (Some london_body))
      else if k = 1 then city_env 1002 NoResponse
      else city_env 1004 (Response 200 (Some tokyo_body)))"







section \<open>Properties of the string operations\<close>

lemma py_in_sublist: "py_in sub s \<longleftrightarrow> sublist sub s"
  by (induction s) (auto simp: sublist_Cons_right)

lemma py_lower_fixed:
  assumes "\<And>c. c \<in> set s \<Longrightarrow> c < 256 \<and> latin1_lower c = c"
  shows "py_lower lo s = s"
proof -
  have "map (lower_at lo s) [0..<length s] = map (\<lambda>i. [s ! i]) [0..<length s]"
    using assms by (simp add: lower_at_def)
  then have "py_lower lo s = concat (map (\<lambda>c. [c]) (map ((!) s) [0..<length s]))"
    unfolding py_lower_def by (simp only: map_map comp_def)
  also have "\<dots> = concat (map (\<lambda>c. [c]) s)" by (simp only: map_nth)
  also have "\<dots> = s" by (induction s) simp_all
  finally show ?thesis .
qed

lemma re_sub_runs_fixed: "(\<And>c. c \<in> set s \<Longrightarrow> \<not> p c) \<Longrightarrow> re_sub_runs p rep s = s"
  by (induction s) simp_all

lemma set_py_strip: "set (py_strip chars s) \<subseteq> set s"
  unfolding py_strip_def by (auto dest!: set_dropWhileD)

lemma py_strip_idem: "py_strip chars (py_strip chars s) = py_strip chars s"
proof -
  let ?P = "\<lambda>c. c \<in> set chars"
  define t where "t = dropWhile ?P s"
  define u where "u = rev (dropWhile ?P (rev t))"
  have u: "py_strip chars s = u" by (simp add: py_strip_def t_def u_def)
  have front: "dropWhile ?P u = u"
  proof (cases "u = []")
    case True
    then show ?thesis by simp
  next
    case False
    have "t = u @ rev (takeWhile ?P (rev t))"
      unfolding u_def by (metis rev_append rev_rev_ident takeWhile_dropWhile_id)
    with False have "hd u = hd t" "t \<noteq> []" by (metis hd_append2, auto)
    moreover have "t \<noteq> [] \<Longrightarrow> \<not> ?P (hd t)"
      using hd_dropWhile [of ?P s] unfolding t_def by blast
    ultimately have "\<not> ?P (hd u)" by simp
    with False show ?thesis by (cases u) simp_all
  qed
  have "rev (dropWhile ?P (rev u)) = u" by (simp add: u_def)
  with front show ?thesis by (simp add: u py_strip_def [of chars u])
qed

subsection \<open>The runs of a string\<close>

lemma concat_runs: "concat (runs p xs) = xs"
  by (induction xs) (auto split: list.splits)

lemma runs_Cons_hd: "runs p (x # xs) \<noteq> [] \<and> hd (hd (runs p (x # xs))) = x"
  by (auto split: list.splits)

lemma runs_nonempty: "r \<in> set (runs p xs) \<Longrightarrow> r \<noteq> []"
  by (induction xs arbitrary: r) (auto split: list.splits if_splits)

lemma runs_homogeneous: "r \<in> set (runs p xs) \<Longrightarrow> x \<in> set r \<Longrightarrow> p x = p (hd r)"
proof (induction xs arbitrary: r x)
  case Nil
  then show ?case by simp
next
  case (Cons a xs)
  show ?case
  proof (cases "runs p xs")
    case Nil
    with Cons.prems show ?thesis by simp
  next
    case (Cons q qs)
    note IH = Cons.IH [unfolded Cons]
    show ?thesis
    proof (cases "p a = p (hd q)")
      case True
      with Cons.prems Cons IH show ?thesis
        by (cases "r = a # q") (auto simp: Cons)
    next
      case False
      with Cons.prems Cons IH show ?thesis by (auto simp: Cons)
    qed
  qed
qed

lemma runs_sep:
  "p c \<Longrightarrow> runs p (c # cs) = (c # takeWhile p cs) # runs p (dropWhile p cs)"
proof (induction cs arbitrary: c)
  case Nil
  then show ?case by simp
next
  case (Cons d ds)
  show ?case
  proof (cases "p d")
    case True
    from Cons.IH [OF True] Cons.prems True show ?thesis by simp
  next
    case False
    obtain r rs where r: "runs p (d # ds) = r # rs" "hd r = d"
      using runs_Cons_hd [of p d ds] by (cases "runs p (d # ds)") auto
    have "runs p (c # d # ds) = [c] # r # rs"
      using r False Cons.prems by (simp del: runs.simps(2) add: runs.simps(2) [of p c "d # ds"])
    with r False show ?thesis by simp
  qed
qed

lemma spec_replace_runs_Nil: "spec_replace_runs p [] = []"
  by (simp add: spec_replace_runs_def)

lemma spec_replace_runs_sep:
  "p c \<Longrightarrow> spec_replace_runs p (c # cs) = cps ''_'' @ spec_replace_runs p (dropWhile p cs)"
  unfolding spec_replace_runs_def by (simp only: runs_sep) simp

lemma spec_replace_runs_keep:
  "\<not> p c \<Longrightarrow> spec_replace_runs p (c # cs) = c # spec_replace_runs p cs"
  unfolding spec_replace_runs_def by (auto split: list.splits)

lemma re_sub_runs_spec: "re_sub_runs p (cps ''_'') s = spec_replace_runs p s"
proof (induction p "cps ''_''" s rule: re_sub_runs.induct)
  case (1 p)
  show ?case by (simp add: spec_replace_runs_Nil)
next
  case (2 p c cs)
  then show ?case
    by (cases "p c") (simp_all add: spec_replace_runs_sep spec_replace_runs_keep)
qed

lemma py_strip_spec: "py_strip [u] s = spec_strip u s"
proof -
  let ?P = "\<lambda>c. c = u"
  have a: "rev (dropWhile ?P (rev t)) = take (length t - length (takeWhile ?P (rev t))) t" for t
  proof -
    have "rev t = takeWhile ?P (rev t) @ dropWhile ?P (rev t)" by simp
    then have "t = rev (dropWhile ?P (rev t)) @ rev (takeWhile ?P (rev t))"
      by (metis rev_append rev_rev_ident)
    then show ?thesis
      by (metis append_eq_conv_conj length_rev length_append add_diff_cancel_right')
  qed
  define t where "t = dropWhile ?P s"
  have t: "t = drop (length (takeWhile ?P s)) s"
    unfolding t_def by (rule dropWhile_eq_drop)
  show ?thesis
  proof (cases "t = []")
    case True
    then have "length (takeWhile ?P s) = length s"
      unfolding t_def by (metis append_Nil2 takeWhile_dropWhile_id)
    with True show ?thesis
      by (simp add: py_strip_def spec_strip_def t_def [symmetric])
  next
    case False
    have "\<not> ?P (hd t)"
      using False hd_dropWhile [of ?P s] unfolding t_def by blast
    with False have ex: "hd t \<in> set (rev t)" "\<not> ?P (hd t)" by simp_all
    have "rev s = rev t @ rev (takeWhile ?P s)"
      unfolding t_def by (metis rev_append takeWhile_dropWhile_id)
    then have k: "takeWhile ?P (rev s) = takeWhile ?P (rev t)"
      using takeWhile_append1 [of "hd t" "rev t" ?P "rev (takeWhile ?P s)"] ex by simp
    have "py_strip [u] s = take (length t - length (takeWhile ?P (rev t))) t"
      by (simp add: py_strip_def t_def [symmetric] a)
    also have "\<dots> = spec_strip u s"
      unfolding spec_strip_def Let_def k drop_take
      by (simp add: t add.commute)
    finally show ?thesis .
  qed
qed


section \<open>The topic sanitizer\<close>

lemma topic_char_plain:
  "is_topic_char c \<Longrightarrow> c < 256 \<and> latin1_lower c = c \<and> \<not> is_separator c"
  by (auto simp: is_topic_char_def latin1_lower_def is_separator_def is_space_def cps_def)

lemma sanitize_topic_chars: "c \<in> set (sanitize_topic lo x) \<Longrightarrow> is_topic_char c"
  using set_py_strip [of "cps ''_''"]
  by (fastforce simp: sanitize_topic_def re_delete_def Let_def)

lemma sanitize_topic_refines: "sanitize_topic lo x = sanitize_spec lo x"
  unfolding sanitize_topic_def sanitize_spec_def re_sub_runs_spec re_delete_def Let_def
  by (simp add: py_strip_spec cps_def)

lemmas sanitize_eval =
  sanitize_topic_def py_lower_def lower_at_def latin1_lower_def upt_rec
  is_separator_def is_space_def is_topic_char_def re_delete_def py_strip_def cps_def

text \<open>
  C6. For every name, the code's \<open>sanitize_topic\<close> is the function the specification
  describes (lower-case, one underscore for each maximal run of white space and
  \<^verbatim>\<open>- . , ! ?\<close>, delete what is not a lower-case ASCII letter, a digit or an underscore,
  strip the underscores at both ends). It is a total function: no step of it can fail.
  "New York City!" gives "new_york_city", three spaces give the empty string, and
  "Z\<open>\<udieresis>\<close>rich" (U+00FC for the second letter) gives "zrich".
\<close>

theorem sanitize_topic_as_specified:
  "sanitize_topic lo x = sanitize_spec lo x
   \<and> sanitize_topic lo (cps ''New York City!'') = cps ''new_york_city''
   \<and> sanitize_topic lo (cps ''   '') = []
   \<and> sanitize_topic lo ([90, 252] @ cps ''rich'') = cps ''zrich''"
proof -
  have "sanitize_topic lo (cps ''New York City!'') = cps ''new_york_city''"
    by (simp add: sanitize_eval)
  moreover have "sanitize_topic lo (cps ''   '') = []"
    by (simp add: sanitize_eval)
  moreover have "sanitize_topic lo ([90, 252] @ cps ''rich'') = cps ''zrich''"
    by (simp add: sanitize_eval)
  ultimately show ?thesis
    using sanitize_topic_refines [of lo x] by blast
qed

text \<open>
  C7. The sanitizer is idempotent: sanitizing a sanitized name changes nothing.
\<close>

theorem sanitize_topic_idempotent:
  "sanitize_topic lo (sanitize_topic lo x) = sanitize_topic lo x"
proof -
  define y where "y = sanitize_topic lo x"
  have ch: "\<And>c. c \<in> set y \<Longrightarrow> is_topic_char c"
    unfolding y_def by (rule sanitize_topic_chars)
  have 1: "py_lower lo y = y"
    by (rule py_lower_fixed) (use ch topic_char_plain in blast)
  have 2: "re_sub_runs is_separator (cps ''_'') y = y"
    by (rule re_sub_runs_fixed) (use ch topic_char_plain in blast)
  have 3: "re_delete (\<lambda>c. \<not> is_topic_char c) y = y"
    using ch by (simp add: re_delete_def)
  have 4: "py_strip (cps ''_'') y = y"
    unfolding y_def sanitize_topic_def Let_def by (rule py_strip_idem)
  have "sanitize_topic lo y = y"
    unfolding sanitize_topic_def [of lo y] Let_def 1 2 3 4 ..
  then show ?thesis by (simp add: y_def)
qed


section \<open>The classifiers\<close>

lemmas icon_defs =
  ICON_thunderstorm_def ICON_rain_def ICON_snow_def ICON_fog_def ICON_clear_def
  ICON_partly_cloudy_def ICON_overcast_def ICON_unknown_def ICON_placeholder_def
  WEATHER_ICONS_sunny_def WEATHER_ICONS_rainy_def WEATHER_ICONS_partly_cloudy_def

lemma service_icons_distinct:
  "distinct [ICON_thunderstorm, ICON_rain, ICON_snow, ICON_fog, ICON_clear,
             ICON_partly_cloudy, ICON_overcast, ICON_unknown]"
  by (simp add: icon_defs)

lemma has_any_simps:
  "has_any [] s = False"
  "has_any (w # ws) s = (py_in (cps w) s \<or> has_any ws s)"
  by (simp_all add: has_any_def)

lemma condition_icon_first_match:
  "condition_icon s = first_match spec_text_rules ICON_unknown s"
  by (simp add: condition_icon_def spec_text_rules_def has_any_simps)

lemmas classify_eval =
  classify_text_def condition_icon_def py_lower_def lower_at_def latin1_lower_def upt_rec cps_def

lemma classify_thunder:
  "classify_text lo (cps ''Thunderstorms likely'') = ICON_thunderstorm"
  by (simp add: classify_eval)

lemma classify_rain:
  "classify_text lo (cps ''Partly cloudy with a chance of rain'') = ICON_rain"
  by (simp add: classify_eval)

text \<open>
  C4. For every condition text, the classifier of the service lower-cases it and returns
  the category of the first test that holds in the order thunderstorm, rain, snow, fog,
  clear (and no cloud), partly cloudy, overcast, and unknown when none holds. The eight
  categories are eight different icons. "Thunderstorms likely" is a thunderstorm and
  "Partly cloudy with a chance of rain" is rain.
\<close>

theorem classify_text_priority:
  "classify_text lo descr = spec_classify_text lo descr
   \<and> classify_text lo (cps ''Thunderstorms likely'') = ICON_thunderstorm
   \<and> classify_text lo (cps ''Partly cloudy with a chance of rain'') = ICON_rain
   \<and> distinct [ICON_thunderstorm, ICON_rain, ICON_snow, ICON_fog, ICON_clear,
                ICON_partly_cloudy, ICON_overcast, ICON_unknown]"
  using condition_icon_first_match [of "py_lower lo descr"] classify_thunder [of lo]
    classify_rain [of lo] service_icons_distinct
  by (simp only: classify_text_def spec_classify_text_def simp_thms)

text \<open>
  C5. For every temperature and humidity, the numeric classifier answers clear (the sunny
  icon) exactly when the temperature is above 30 and the humidity below 50, otherwise rain
  exactly when the humidity is above 80, otherwise partly cloudy. It never answers the
  snow, fog, thunderstorm, overcast or unknown icon of the service, nor the placeholder
  icon. At (32, 40) it answers clear, at (20, 85) rain, at (20, 60) partly cloudy.
\<close>

theorem get_weather_condition_cases:
  "(get_weather_condition t h = WEATHER_ICONS_sunny \<longleftrightarrow> t > 30 \<and> h < 50)
   \<and> (get_weather_condition t h = WEATHER_ICONS_rainy \<longleftrightarrow> \<not> (t > 30 \<and> h < 50) \<and> h > 80)
   \<and> (get_weather_condition t h = WEATHER_ICONS_partly_cloudy
        \<longleftrightarrow> \<not> (t > 30 \<and> h < 50) \<and> \<not> h > 80)
   \<and> get_weather_condition t h \<notin>
        {ICON_snow, ICON_fog, ICON_thunderstorm, ICON_overcast, ICON_unknown, ICON_placeholder}
   \<and> get_weather_condition 32 40 = WEATHER_ICONS_sunny
   \<and> get_weather_condition 20 85 = WEATHER_ICONS_rainy
   \<and> get_weather_condition 20 60 = WEATHER_ICONS_partly_cloudy"
  by (simp add: get_weather_condition_def icon_defs)


section \<open>The weather service\<close>

lemma get_weather_fresh:
  "cache sv city = Some (ts, d) \<Longrightarrow> now_check env - ts < CACHE_DURATION \<Longrightarrow>
   get_weather lo fl sv city uce env = (Inr d, sv)"
  by (simp add: get_weather_def)

lemma get_weather_due:
  "\<not> fresh sv city env \<Longrightarrow>
   get_weather lo fl sv city uce env =
     fetch_from_api lo fl sv city uce (map_option snd (cache sv city)) env"
  by (auto simp: get_weather_def fresh_def split: option.splits)

lemma fetch_from_api_requests:
  "requests (snd (fetch_from_api lo fl sv city uce cached env)) = requests sv @ [city]"
  by (simp add: fetch_from_api_def Let_def split: http_reply.splits option.splits sum.splits)

lemma fetch_from_api_Inr:
  assumes "fetch_from_api lo fl sv city uce cached env = (Inr r, sv')"
  shows "(cached = Some r \<and> cache sv' = cache sv) \<or> cache sv' = (cache sv)(city \<mapsto> (now_store env, r))"
  using assms
  by (auto simp: fetch_from_api_def Let_def split: http_reply.splits option.splits sum.splits if_splits)

lemma fetch_from_api_Inl:
  assumes "fetch_from_api lo fl sv city uce cached env = (Inl e, sv')"
  shows "cache sv' = cache sv"
  using assms
  by (auto simp: fetch_from_api_def Let_def split: http_reply.splits option.splits sum.splits if_splits)

lemma get_weather_Inr_cached:
  assumes "get_weather lo fl sv city uce env = (Inr r, sv')"
  shows "\<exists>ts. cache sv' city = Some (ts, r)"
proof (cases "fresh sv city env")
  case True
  with assms show ?thesis
    by (auto simp: fresh_def get_weather_def split: option.splits)
next
  case False
  from assms get_weather_due [OF False]
  have f: "fetch_from_api lo fl sv city uce (map_option snd (cache sv city)) env = (Inr r, sv')"
    by simp
  from fetch_from_api_Inr [OF f] show ?thesis by auto
qed

lemma get_weather_first_call:
  assumes "get_weather lo fl sv city uce env = (Inr r, sv')" and "cache sv city = None"
  shows "cache sv' city = Some (now_store env, r) \<and> requests sv' = requests sv @ [city]"
proof -
  have nf: "\<not> fresh sv city env" using assms(2) by (simp add: fresh_def)
  from assms get_weather_due [OF nf, of lo fl uce]
  have f: "fetch_from_api lo fl sv city uce None env = (Inr r, sv')" by simp
  from fetch_from_api_Inr [OF f] fetch_from_api_requests [of lo fl sv city uce None env] f
  show ?thesis by auto
qed

lemma fetch_due:
  "\<not> fresh sv city env \<Longrightarrow>
   fetch lo fl sv city env =
     fetch_from_api lo fl sv city True (map_option snd (cache sv city)) env"
  by (simp add: fetch_def get_weather_due)

lemma float_limit_large: "1000000 < FLOAT_LIMIT"
  by (simp add: FLOAT_LIMIT_def)

lemma as_float_small: "\<bar>x\<bar> \<le> 1000000 \<Longrightarrow> as_float x = Inr x"
  using float_limit_large by (simp add: as_float_def)

lemma as_float_Inr: "as_float x = Inr y \<longleftrightarrow> y = x \<and> \<bar>x\<bar> < FLOAT_LIMIT"
  by (auto simp: as_float_def)

lemma build_london: "build_reading plain_lower decimal_ops london_body = Inr london_reading"
  by (simp add: build_reading_def london_body_def ebind_def cps_def decimal_ops_def as_float_small
      london_reading_def condition_icon_def py_lower_def lower_at_def latin1_lower_def upt_rec
      round_def)

lemma first_london:
  "get_weather plain_lower decimal_ops empty_service london True
     (answer_at 1000 (Response 200 (Some london_body))) = (Inr london_reading, london_cached)"
  by (simp add: get_weather_def fetch_from_api_def empty_service_def answer_at_def build_london
      london_cached_def)


lemma london_cached_due: "\<not> fresh london_cached london (answer_at 5000 r)"
  by (simp add: fresh_def london_cached_def answer_at_def CACHE_DURATION_def)

lemma empty_service_due: "\<not> fresh empty_service city env"
  by (simp add: fresh_def empty_service_def)


text \<open>
  C1. When a call of \<open>get_weather\<close> for a city returns a reading, the cache holds that
  reading for the city under some time stamp; for a first call (no entry before) the
  time stamp is the time of that call and one request was sent. Any later call for the
  city whose clock is less than 600 seconds after the time stamp returns the same reading
  and leaves the service as it is, so no request is sent; any call whose clock is 600
  seconds or more after the time stamp sends a new request.
\<close>

theorem second_call_within_ttl:
  assumes first: "get_weather lo fl sv city uce env1 = (Inr r1, sv1)"
  shows "\<exists>ts. cache sv1 city = Some (ts, r1)
     \<and> (cache sv city = None \<longrightarrow> ts = now_store env1 \<and> requests sv1 = requests sv @ [city])
     \<and> (\<forall>env2 uce2. now_check env2 - ts < 600 \<longrightarrow>
           get_weather lo fl sv1 city uce2 env2 = (Inr r1, sv1))
     \<and> (\<forall>env2 uce2. now_check env2 - ts \<ge> 600 \<longrightarrow>
           requests (snd (get_weather lo fl sv1 city uce2 env2)) = requests sv1 @ [city])"
proof -
  from get_weather_Inr_cached [OF first] obtain ts where ts: "cache sv1 city = Some (ts, r1)"
    by blast
  have a: "cache sv city = None \<longrightarrow> ts = now_store env1 \<and> requests sv1 = requests sv @ [city]"
    using get_weather_first_call [OF first] ts by auto
  have b: "get_weather lo fl sv1 city uce2 env2 = (Inr r1, sv1)"
    if "now_check env2 - ts < 600" for env2 uce2
    using get_weather_fresh [OF ts, of env2] that by (simp add: CACHE_DURATION_def)
  have c: "requests (snd (get_weather lo fl sv1 city uce2 env2)) = requests sv1 @ [city]"
    if "now_check env2 - ts \<ge> 600" for env2 uce2
  proof -
    have "\<not> fresh sv1 city env2" using ts that by (simp add: fresh_def CACHE_DURATION_def)
    from get_weather_due [OF this] show ?thesis by (simp add: fetch_from_api_requests)
  qed
  show ?thesis
    by (rule exI [of _ ts]) (simp add: ts a b c)
qed

theorem second_call_within_ttl_witness:
  "get_weather plain_lower decimal_ops empty_service london True
     (answer_at 1000 (Response 200 (Some london_body))) = (Inr london_reading, london_cached)
   \<and> cache london_cached london = Some (1001, london_reading)
   \<and> get_weather plain_lower decimal_ops london_cached london True
       (answer_at 1600 NoResponse) = (Inr london_reading, london_cached)
   \<and> requests (snd (get_weather plain_lower decimal_ops london_cached london True
       (answer_at 1601 NoResponse))) = [london, london]"
proof -
  note first = first_london
  from second_call_within_ttl [OF first] obtain ts where
    ts: "cache london_cached london = Some (ts, london_reading)"
    and hit: "\<And>env2 uce2. now_check env2 - ts < 600 \<Longrightarrow>
           get_weather plain_lower decimal_ops london_cached london uce2 env2
             = (Inr london_reading, london_cached)"
    and miss: "\<And>env2 uce2. now_check env2 - ts \<ge> 600 \<Longrightarrow>
           requests (snd (get_weather plain_lower decimal_ops london_cached london uce2 env2))
             = requests london_cached @ [london]"
    by blast
  from ts have t: "ts = 1001" by (simp add: london_cached_def)
  have "now_check (answer_at 1600 NoResponse) - ts < 600" by (simp add: t answer_at_def)
  from hit [OF this] have h: "get_weather plain_lower decimal_ops london_cached london True
       (answer_at 1600 NoResponse) = (Inr london_reading, london_cached)" .
  have "now_check (answer_at 1601 NoResponse) - ts \<ge> 600" by (simp add: t answer_at_def)
  from miss [OF this] have m: "requests (snd (get_weather plain_lower decimal_ops london_cached
       london True (answer_at 1601 NoResponse))) = [london, london]"
    by (simp add: london_cached_def)
  from first ts t h m show ?thesis by simp
qed


text \<open>
  C2. For every call of \<open>fetch\<close> that sends a request (the city has no fresh entry):
  on status 429 with an entry for the city, of whatever age, the stale reading is
  returned; on status 429 without an entry, on any other error status (401 among them),
  on a transport failure, on a body that is not JSON and on a body of the wrong shape, the
  error is the result of the call. A failing call leaves the cache as it was.
\<close>

theorem stale_fallback_only_on_429:
  assumes due: "\<not> fresh sv city env"
  shows "(reply env = Response 429 body \<and> cache sv city = Some (ts, stale)
            \<longrightarrow> fst (fetch lo fl sv city env) = Inr stale)
     \<and> (reply env = Response 429 body \<and> cache sv city = None
            \<longrightarrow> fst (fetch lo fl sv city env) = Inl (HTTPError 429))
     \<and> (reply env = Response status body \<and> 400 \<le> status \<and> status < 600 \<and> status \<noteq> 429
            \<longrightarrow> fst (fetch lo fl sv city env) = Inl (HTTPError status))
     \<and> (reply env = NoResponse \<longrightarrow> fst (fetch lo fl sv city env) = Inl TransportError)
     \<and> (reply env = Response status None \<and> \<not> (400 \<le> status \<and> status < 600)
            \<longrightarrow> fst (fetch lo fl sv city env) = Inl JSONDecodeError)
     \<and> (reply env = Response status (Some raw) \<and> \<not> (400 \<le> status \<and> status < 600)
          \<and> build_reading lo fl raw = Inl e
            \<longrightarrow> fst (fetch lo fl sv city env) = Inl e)
     \<and> (\<forall>e. fst (fetch lo fl sv city env) = Inl e
            \<longrightarrow> cache (snd (fetch lo fl sv city env)) = cache sv)"
proof -
  have "cache (snd (fetch lo fl sv city env)) = cache sv"
    if "fst (fetch lo fl sv city env) = Inl e" for e
    using that fetch_from_api_Inl [of lo fl sv city True "map_option snd (cache sv city)" env e
        "snd (fetch lo fl sv city env)"]
    by (simp add: fetch_due [OF due] prod_eq_iff)
  note c7 = this
  note f = fetch_due [OF due] fetch_from_api_def Let_def
  have c1: "reply env = Response 429 body \<and> cache sv city = Some (ts, stale)
            \<longrightarrow> fst (fetch lo fl sv city env) = Inr stale"
    by (simp add: f)
  have c2: "reply env = Response 429 body \<and> cache sv city = None
            \<longrightarrow> fst (fetch lo fl sv city env) = Inl (HTTPError 429)"
    by (simp add: f)
  have c3: "reply env = Response status body \<and> 400 \<le> status \<and> status < 600 \<and> status \<noteq> 429
            \<longrightarrow> fst (fetch lo fl sv city env) = Inl (HTTPError status)"
    by (simp add: f split: option.splits)
  have c4: "reply env = NoResponse \<longrightarrow> fst (fetch lo fl sv city env) = Inl TransportError"
    by (simp add: f)
  have c5: "reply env = Response status None \<and> \<not> (400 \<le> status \<and> status < 600)
            \<longrightarrow> fst (fetch lo fl sv city env) = Inl JSONDecodeError"
    by (auto simp: f)
  have c6: "reply env = Response status (Some raw) \<and> \<not> (400 \<le> status \<and> status < 600)
          \<and> build_reading lo fl raw = Inl e
            \<longrightarrow> fst (fetch lo fl sv city env) = Inl e"
    by (auto simp: f)
  from c1 c2 c3 c4 c5 c6 c7 show ?thesis by blast
qed


theorem stale_fallback_only_on_429_witness:
  "fst (fetch plain_lower decimal_ops london_cached london (answer_at 5000 (Response 429 None)))
     = Inr london_reading
   \<and> fst (fetch plain_lower decimal_ops empty_service london (answer_at 5000 (Response 429 None)))
     = Inl (HTTPError 429)
   \<and> fst (fetch plain_lower decimal_ops london_cached london (answer_at 5000 (Response 401 None)))
     = Inl (HTTPError 401)
   \<and> fst (fetch plain_lower decimal_ops london_cached london (answer_at 5000 NoResponse))
     = Inl TransportError
   \<and> fst (fetch plain_lower decimal_ops london_cached london (answer_at 5000 (Response 200 None)))
     = Inl JSONDecodeError
   \<and> fst (fetch plain_lower decimal_ops london_cached london
            (answer_at 5000 (Response 200 (Some (JObj [])))))
     = Inl (KeyError (cps ''currentConditions''))
   \<and> cache (snd (fetch plain_lower decimal_ops london_cached london
            (answer_at 5000 (Response 401 None)))) = cache london_cached"
proof -
  have e: "build_reading plain_lower decimal_ops (JObj []) = Inl (KeyError (cps ''currentConditions''))"
    by (simp add: build_reading_def ebind_def)
  have c: "cache london_cached london = Some (1001, london_reading)"
    by (simp add: london_cached_def)
  have n: "cache empty_service london = None"
    by (simp add: empty_service_def)
  note w1 = stale_fallback_only_on_429 [OF london_cached_due [of "Response 429 None"],
      where body = None and ts = 1001 and stale = london_reading]
  note w2 = stale_fallback_only_on_429 [OF empty_service_due [of london "answer_at 5000 (Response 429 None)"],
      where body = None]
  note w3 = stale_fallback_only_on_429 [OF london_cached_due [of "Response 401 None"],
      where body = None and status = 401 and lo = plain_lower and fl = decimal_ops]
  note w4 = stale_fallback_only_on_429 [OF london_cached_due [of NoResponse]]
  note w5 = stale_fallback_only_on_429 [OF london_cached_due [of "Response 200 None"],
      where status = 200]
  note w6 = stale_fallback_only_on_429 [OF london_cached_due [of "Response 200 (Some (JObj []))"],
      where status = 200 and raw = "JObj []" and lo = plain_lower and fl = decimal_ops
        and e = "KeyError (cps ''currentConditions'')"]
  have 1: "fst (fetch plain_lower decimal_ops london_cached london (answer_at 5000 (Response 429 None)))
     = Inr london_reading"
    using w1 c by (simp add: answer_at_def)
  have 2: "fst (fetch plain_lower decimal_ops empty_service london (answer_at 5000 (Response 429 None)))
     = Inl (HTTPError 429)"
    using w2 n by (simp add: answer_at_def)
  have 3: "fst (fetch plain_lower decimal_ops london_cached london (answer_at 5000 (Response 401 None)))
     = Inl (HTTPError 401)"
    using w3 by (simp add: answer_at_def)
  have 4: "fst (fetch plain_lower decimal_ops london_cached london (answer_at 5000 NoResponse))
     = Inl TransportError"
    using w4 by (simp add: answer_at_def)
  have 5: "fst (fetch plain_lower decimal_ops london_cached london (answer_at 5000 (Response 200 None)))
     = Inl JSONDecodeError"
    using w5 by (simp add: answer_at_def)
  have 6: "fst (fetch plain_lower decimal_ops london_cached london
            (answer_at 5000 (Response 200 (Some (JObj [])))))
     = Inl (KeyError (cps ''currentConditions''))"
    using w6 e by (simp add: answer_at_def)
  have 7: "cache (snd (fetch plain_lower decimal_ops london_cached london
            (answer_at 5000 (Response 401 None)))) = cache london_cached"
    using w3 3 by blast
  from 1 2 3 4 5 6 7 show ?thesis by blast
qed




section \<open>The dashboard\<close>

subsection \<open>The service as the loop calls it\<close>




lemma get_weather_data_fst:
  "fst (get_weather_data lo fl sv c env) =
     (case fst (fetch lo fl sv c env) of
        Inr d \<Rightarrow> Inr d
      | Inl e \<Rightarrow> if is_RequestException e then Inr dummy_data else Inl e)"
  by (simp add: get_weather_data_def fetch_def split: prod.splits sum.splits)


subsection \<open>The body of the loop\<close>

lemma deque_append_bounded:
  "length d \<le> n \<Longrightarrow> length (deque_append n d x) \<le> n"
  by (simp add: deque_append_def Let_def)

lemma append_data_eq:
  "append_data fl env t a =
     (if \<bar>t\<bar> \<ge> FLOAT_LIMIT then Inl OverflowError
      else Inr (a\<lparr>temp_history := deque_append DEFAULT_HISTORY (temp_history a)
                     (round1 fl (fadd fl t (round1 fl (jitter env)))),
                 time_history := deque_append DEFAULT_HISTORY (time_history a) (clock env)\<rparr>))"
  by (simp add: append_data_def as_float_def Let_def)

lemma append_data_Inr:
  assumes "append_data fl env t a = Inr a'"
  shows "service a' = service a" "cities a' = cities a" "graphed_city a' = graphed_city a"
    "city_data a' = city_data a" "history_bounded a \<Longrightarrow> history_bounded a'"
  using assms
  by (auto simp: append_data_eq history_bounded_def deque_append_bounded split: if_splits)

lemma publish_reading_fields:
  "service (publish_reading lo env c d a) = service a"
  "cities (publish_reading lo env c d a) = cities a"
  "graphed_city (publish_reading lo env c d a) = graphed_city a"
  "city_data (publish_reading lo env c d a) = city_data a"
  "temp_history (publish_reading lo env c d a) = temp_history a"
  "time_history (publish_reading lo env c d a) = time_history a"
  by (simp_all add: publish_reading_def)

lemma history_bounded_frame:
  "temp_history a' = temp_history a \<Longrightarrow> time_history a' = time_history a \<Longrightarrow>
   history_bounded a' = history_bounded a"
  by (simp add: history_bounded_def)

lemma update_city_skip:
  assumes "fst (get_weather_data lo fl (service a) city (call env)) = Inl e"
  shows "update_city lo fl env city a
     = Inr (a\<lparr>service := snd (get_weather_data lo fl (service a) city (call env))\<rparr>)"
  using assms by (cases "get_weather_data lo fl (service a) city (call env)")
    (simp add: update_city_def)

lemma update_city_shown:
  assumes got: "fst (get_weather_data lo fl (service a) city (call env)) = Inr d"
    and row: "city_data a city = Some old"
    and range: "city = graphed_city a \<longrightarrow> \<bar>temperature d\<bar> < FLOAT_LIMIT"
  shows "\<exists>a'. update_city lo fl env city a = Inr a'
     \<and> city_data a' = (city_data a)(city \<mapsto> show_reading d)
     \<and> service a' = snd (get_weather_data lo fl (service a) city (call env))
     \<and> cities a' = cities a \<and> graphed_city a' = graphed_city a
     \<and> (history_bounded a \<longrightarrow> history_bounded a')"
proof -
  obtain sv where p: "get_weather_data lo fl (service a) city (call env) = (Inr d, sv)"
    using got by (cases "get_weather_data lo fl (service a) city (call env)") simp
  define a1 where "a1 = a\<lparr>service := sv, city_data := (city_data a)(city \<mapsto> show_reading d)\<rparr>"
  have f1: "service a1 = sv" "cities a1 = cities a" "graphed_city a1 = graphed_city a"
    "city_data a1 = (city_data a)(city \<mapsto> show_reading d)"
    "history_bounded a1 = history_bounded a"
    by (simp_all add: a1_def history_bounded_def)
  show ?thesis
  proof (cases "city = graphed_city a")
    case False
    then have "update_city lo fl env city a = Inr (publish_reading lo env city d a1)"
      using p row by (simp add: update_city_def Let_def a1_def)
    then show ?thesis
      using f1 p
      by (simp add: publish_reading_fields history_bounded_frame [OF publish_reading_fields(5,6)])
  next
    case True
    with range have "\<not> \<bar>temperature d\<bar> \<ge> FLOAT_LIMIT" by simp
    then obtain a2 where a2: "append_data fl env (temperature d) a1 = Inr a2"
      by (simp add: append_data_eq)
    have "update_city lo fl env city a = Inr (publish_reading lo env city d a2)"
      using p row True a2 by (simp add: update_city_def Let_def a1_def)
    then show ?thesis
      using f1 p append_data_Inr [OF a2]
      by (simp add: publish_reading_fields history_bounded_frame [OF publish_reading_fields(5,6)])
  qed
qed

lemma update_city_overflow:
  assumes got: "fst (get_weather_data lo fl (service a) city (call env)) = Inr d"
    and row: "city_data a city = Some old"
    and chart: "city = graphed_city a" and big: "\<bar>temperature d\<bar> \<ge> FLOAT_LIMIT"
  shows "update_city lo fl env city a
     = Inl (OverflowError,
            a\<lparr>service := snd (get_weather_data lo fl (service a) city (call env)),
              city_data := (city_data a)(city \<mapsto> show_reading d)\<rparr>)"
proof -
  obtain sv where p: "get_weather_data lo fl (service a) city (call env) = (Inr d, sv)"
    using got by (cases "get_weather_data lo fl (service a) city (call env)") simp
  show ?thesis
    using p row chart big by (simp add: update_city_def Let_def append_data_eq)
qed

lemma update_city_final_bounded:
  assumes "history_bounded a"
  shows "history_bounded (final_state (update_city lo fl env city a))"
proof (cases "get_weather_data lo fl (service a) city (call env)")
  case (Pair res sv)
  show ?thesis
  proof (cases res)
    case (Inl e)
    with Pair assms show ?thesis
      by (simp add: update_city_def final_state_def history_bounded_def)
  next
    case (Inr d)
    show ?thesis
    proof (cases "city_data a city")
      case None
      with Pair Inr assms show ?thesis
        by (simp add: update_city_def final_state_def history_bounded_def)
    next
      case (Some old)
      show ?thesis
      proof (cases "city = graphed_city a \<and> \<bar>temperature d\<bar> \<ge> FLOAT_LIMIT")
        case True
        with update_city_overflow [of lo fl a city env d old] Pair Inr Some assms
        show ?thesis by (simp add: final_state_def history_bounded_def)
      next
        case False
        with update_city_shown [of lo fl a city env d old] Pair Inr Some assms
        show ?thesis by (auto simp: final_state_def)
      qed
    qed
  qed
qed



subsection \<open>The loop over the cities\<close>





lemma dummy_in_range: "\<bar>temperature dummy_data\<bar> < FLOAT_LIMIT"
  using float_limit_large by (simp add: dummy_data_def)







subsection \<open>The example of three cities\<close>


lemma three_names_distinct: "distinct [london, paris, tokyo]"
  by (simp add: london_def paris_def tokyo_def cps_def)


lemma three_fields:
  "cities three_cities = [london, paris, tokyo]" "graphed_city three_cities = london"
  by (simp_all add: three_cities_def)


lemma three_rows:
  "city_data three_cities london = Some initial_row"
  "city_data three_cities paris = Some initial_row"
  "city_data three_cities tokyo = Some initial_row"
  using three_names_distinct by (auto simp: three_cities_def)


lemma build_empty_object:
  "build_reading lo fl (JObj []) = Inl (KeyError (cps ''currentConditions''))"
  by (simp add: build_reading_def ebind_def)

lemmas three_eval =
  fetch_def get_weather_def fetch_from_api_def three_cities_def city_env_def answer_at_def

lemma fetch_three_london:
  "fst (fetch plain_lower decimal_ops (service three_cities) london
         (call (city_env 1000 (Response 200 (Some london_body))))) = Inr london_reading"
  by (simp add: three_eval build_london)

lemma fetch_three_paris:
  "fst (fetch plain_lower decimal_ops (service three_cities) paris
         (call (city_env 1002 NoResponse))) = Inl TransportError"
  by (simp add: three_eval)

lemma fetch_three_paris_malformed:
  "fst (fetch plain_lower decimal_ops (service three_cities) paris
         (call (city_env 1002 (Response 200 (Some (JObj [])))))) = Inl (KeyError (cps ''currentConditions''))"
  by (simp add: three_eval build_empty_object)


lemma london_in_range: "\<bar>temperature london_reading\<bar> < FLOAT_LIMIT"
  using float_limit_large by (simp add: london_reading_def)
















subsection \<open>The placeholder reading\<close>

text \<open>
  C10. For every city that has a row: when the service raises a request exception
  (an HTTP error status and a transport failure are such), \<open>get_weather_data\<close> returns the
  placeholder reading 20.0, 50.0, 0.0 with the icon U+2753, and the body of the loop puts
  these values into the row of the city; when the service raises another error (a
  \<^verbatim>\<open>KeyError\<close> is such), \<open>get_weather_data\<close> raises it too and the body of the loop leaves the
  row as it was.
\<close>

theorem request_error_shows_placeholder:
  assumes row: "city_data a city = Some old"
  shows "(\<forall>e. fst (get_weather lo fl (service a) city True (call env)) = Inl e
              \<and> is_RequestException e
            \<longrightarrow> fst (get_weather_data lo fl (service a) city (call env)) = Inr dummy_data
              \<and> row_after (update_city lo fl env city a) city = Some (show_reading dummy_data))
     \<and> (\<forall>e. fst (get_weather lo fl (service a) city True (call env)) = Inl e
              \<and> \<not> is_RequestException e
            \<longrightarrow> fst (get_weather_data lo fl (service a) city (call env)) = Inl e
              \<and> row_after (update_city lo fl env city a) city = Some old)
     \<and> dummy_data = \<lparr>temperature = 20, humidity = 50, wind = 0, condition = [10067]\<rparr>
     \<and> show_reading dummy_data =
         \<lparr>row_temp = Shown 20, row_humidity = Shown 50, row_wind = Shown 0,
          row_condition = [10067]\<rparr>
     \<and> is_RequestException (HTTPError status) \<and> is_RequestException TransportError
     \<and> \<not> is_RequestException (KeyError key)"
proof -
  have placeholder: "fst (get_weather_data lo fl (service a) city (call env)) = Inr dummy_data
      \<and> row_after (update_city lo fl env city a) city = Some (show_reading dummy_data)"
    if "fst (get_weather lo fl (service a) city True (call env)) = Inl e" "is_RequestException e"
    for e
  proof -
    from that have g: "fst (get_weather_data lo fl (service a) city (call env)) = Inr dummy_data"
      by (simp add: get_weather_data_fst fetch_def)
    from update_city_shown [OF g row] dummy_in_range obtain a' where
      "update_city lo fl env city a = Inr a'"
      "city_data a' = (city_data a)(city \<mapsto> show_reading dummy_data)"
      by blast
    with g show ?thesis by (simp add: row_after_def)
  qed
  have skipped: "fst (get_weather_data lo fl (service a) city (call env)) = Inl e
      \<and> row_after (update_city lo fl env city a) city = Some old"
    if "fst (get_weather lo fl (service a) city True (call env)) = Inl e"
      "\<not> is_RequestException e" for e
  proof -
    from that have g: "fst (get_weather_data lo fl (service a) city (call env)) = Inl e"
      by (simp add: get_weather_data_fst fetch_def)
    from update_city_skip [OF g] g row show ?thesis by (simp add: row_after_def)
  qed
  from placeholder skipped show ?thesis
    by (simp add: dummy_data_def show_reading_def ICON_placeholder_def)
qed

theorem request_error_shows_placeholder_witness:
  "city_data three_cities paris = Some initial_row
   \<and> fst (get_weather plain_lower decimal_ops (service three_cities) paris True
            (call (city_env 1002 NoResponse))) = Inl TransportError
   \<and> fst (get_weather_data plain_lower decimal_ops (service three_cities) paris
            (call (city_env 1002 NoResponse))) = Inr dummy_data
   \<and> row_after (update_city plain_lower decimal_ops (city_env 1002 NoResponse) paris three_cities)
        paris = Some (show_reading dummy_data)
   \<and> fst (get_weather plain_lower decimal_ops (service three_cities) paris True
            (call (city_env 1002 (Response 200 (Some (JObj []))))))
        = Inl (KeyError (cps ''currentConditions''))
   \<and> row_after (update_city plain_lower decimal_ops (city_env 1002 (Response 200 (Some (JObj []))))
        paris three_cities) paris = Some initial_row"
proof -
  note t1 = request_error_shows_placeholder [OF three_rows(2), of plain_lower decimal_ops
      "city_env 1002 NoResponse"]
  note t2 = request_error_shows_placeholder [OF three_rows(2), of plain_lower decimal_ops
      "city_env 1002 (Response 200 (Some (JObj [])))"]
  have f1: "fst (get_weather plain_lower decimal_ops (service three_cities) paris True
            (call (city_env 1002 NoResponse))) = Inl TransportError"
    using fetch_three_paris by (simp add: fetch_def)
  have f2: "fst (get_weather plain_lower decimal_ops (service three_cities) paris True
            (call (city_env 1002 (Response 200 (Some (JObj []))))))
        = Inl (KeyError (cps ''currentConditions''))"
    using fetch_three_paris_malformed by (simp add: fetch_def)
  from t1 f1 have 1: "fst (get_weather_data plain_lower decimal_ops (service three_cities) paris
            (call (city_env 1002 NoResponse))) = Inr dummy_data
     \<and> row_after (update_city plain_lower decimal_ops (city_env 1002 NoResponse) paris three_cities)
        paris = Some (show_reading dummy_data)"
    by simp
  from t2 f2 have 2: "row_after (update_city plain_lower decimal_ops
        (city_env 1002 (Response 200 (Some (JObj [])))) paris three_cities) paris = Some initial_row"
    by simp
  from three_rows(2) f1 f2 1 2 show ?thesis by simp
qed

subsection \<open>The history of the chart\<close>

lemma update_cities_final_bounded:
  "history_bounded a \<Longrightarrow> history_bounded (final_state (update_cities lo fl envs j xs a))"
proof (induction xs arbitrary: j a)
  case Nil
  then show ?case by (simp add: final_state_def)
next
  case (Cons x xs)
  from update_city_final_bounded [OF Cons.prems, of lo fl "envs j" x]
  show ?case
  proof (cases "update_city lo fl (envs j) x a")
    case (Inl raised)
    with \<open>history_bounded (final_state (update_city lo fl (envs j) x a))\<close>
    show ?thesis by simp
  next
    case (Inr a1)
    with \<open>history_bounded (final_state (update_city lo fl (envs j) x a))\<close>
    have "history_bounded a1" by (simp add: final_state_def)
    from Cons.IH [OF this, of "Suc j"] Inr show ?thesis by simp
  qed
qed

lemma run_ticks_final_bounded:
  "history_bounded a \<Longrightarrow> history_bounded (final_state (run_ticks lo fl world n a))"
proof (induction n)
  case 0
  then show ?case by (simp add: final_state_def)
next
  case (Suc n)
  show ?case
  proof (cases "run_ticks lo fl world n a")
    case (Inl raised)
    with Suc show ?thesis by simp
  next
    case (Inr a1)
    with Suc have "history_bounded a1" by (simp add: final_state_def)
    from update_cities_final_bounded [OF this, of lo fl "world n" 0 "cities a1"] Inr
    show ?thesis by (simp add: update_loop_def)
  qed
qed

lemma dom_fold_rows:
  "dom (fold (\<lambda>city rows. rows(city \<mapsto> r)) names m) = dom m \<union> set names"
  by (induction names arbitrary: m) auto

lemma init_app_ready:
  assumes "init_app lo fl sv names env = Inr a0"
  shows "set (cities a0) \<subseteq> dom (city_data a0) \<and> history_bounded a0"
proof (cases names)
  case Nil
  with assms show ?thesis by (simp add: init_app_def)
next
  case (Cons first others)
  define a where "a = \<lparr>service = sv, cities = names, graphed_city = first,
      city_data = fold (\<lambda>city rows. rows(city \<mapsto> initial_row)) names Map.empty,
      temp_history = [], time_history = [], published = []\<rparr>"
  have b: "history_bounded (a\<lparr>service := s\<rparr>)" for s
    by (simp add: a_def history_bounded_def)
  have d: "set (cities (a\<lparr>service := s\<rparr>)) \<subseteq> dom (city_data (a\<lparr>service := s\<rparr>))" for s
    by (simp add: a_def dom_fold_rows)
  from assms Cons obtain t s where "append_data fl env t (a\<lparr>service := s\<rparr>) = Inr a0"
    by (auto simp: init_app_def Let_def a_def split: prod.splits sum.splits)
  from append_data_Inr [OF this] b [of s] d [of s] show ?thesis by simp
qed

lemma deque_append_full:
  "length d = DEFAULT_HISTORY \<Longrightarrow> deque_append DEFAULT_HISTORY d x = tl d @ [x]"
  by (cases d) (simp_all add: deque_append_def DEFAULT_HISTORY_def)

lemma deque_append_room:
  "length d < DEFAULT_HISTORY \<Longrightarrow> deque_append DEFAULT_HISTORY d x = d @ [x]"
  by (simp add: deque_append_def)

lemma update_city_chart_append:
  assumes run: "update_city lo fl env city a = Inr a'"
    and got: "fst (get_weather_data lo fl (service a) city (call env)) = Inr d"
    and chart: "city = graphed_city a"
  shows "temp_history a' = deque_append DEFAULT_HISTORY (temp_history a)
             (round1 fl (fadd fl (temperature d) (round1 fl (jitter env))))
     \<and> time_history a' = deque_append DEFAULT_HISTORY (time_history a) (clock env)"
proof -
  obtain sv where p: "get_weather_data lo fl (service a) city (call env) = (Inr d, sv)"
    using got by (cases "get_weather_data lo fl (service a) city (call env)") simp
  from run p obtain old where old: "city_data a city = Some old"
    by (cases "city_data a city") (auto simp: update_city_def)
  have small: "\<not> \<bar>temperature d\<bar> \<ge> FLOAT_LIMIT"
    using update_city_overflow [OF got old chart] run by auto
  with run p old chart show ?thesis
    by (auto simp: update_city_def Let_def append_data_eq publish_reading_fields)
qed

text \<open>
  C9. From the state that \<open>init_app\<close> builds, after any number of ticks in any
  environment, whether or not one of them raised, the temperature history and the time
  history hold at most 60 points each. Appending to a history of 60 points drops the
  oldest one and puts the new one last; appending to a shorter history drops nothing.
  That is the append the loop makes: whenever its body returns for the city of the chart
  with a reading from \<open>get_weather_data\<close>, the temperature history is the former one
  with the jittered temperature appended in that way, and the time history the former one
  with the clock appended.
\<close>

theorem history_never_exceeds_capacity:
  assumes "init_app lo fl sv names env0 = Inr a0"
  shows "length (temp_history (final_state (run_ticks lo fl world n a0))) \<le> 60
     \<and> length (time_history (final_state (run_ticks lo fl world n a0))) \<le> 60
     \<and> (\<forall>d x. length d = 60 \<longrightarrow> deque_append DEFAULT_HISTORY d (x::real) = tl d @ [x])
     \<and> (\<forall>d x. length d < 60 \<longrightarrow> deque_append DEFAULT_HISTORY d (x::real) = d @ [x])
     \<and> (\<forall>a a' env r.
           update_city lo fl env (graphed_city a) a = Inr a'
           \<and> fst (get_weather_data lo fl (service a) (graphed_city a) (call env)) = Inr r
         \<longrightarrow> temp_history a' = deque_append DEFAULT_HISTORY (temp_history a)
                 (round1 fl (fadd fl (temperature r) (round1 fl (jitter env))))
           \<and> time_history a' = deque_append DEFAULT_HISTORY (time_history a) (clock env))"
proof -
  have appended: "temp_history a' = deque_append DEFAULT_HISTORY (temp_history a)
                 (round1 fl (fadd fl (temperature r) (round1 fl (jitter env))))
           \<and> time_history a' = deque_append DEFAULT_HISTORY (time_history a) (clock env)"
    if "update_city lo fl env (graphed_city a) a = Inr a'"
      "fst (get_weather_data lo fl (service a) (graphed_city a) (call env)) = Inr r"
    for a a' env r
    using update_city_chart_append [OF that refl] .
  from init_app_ready [OF assms] have "history_bounded a0" by simp
  from run_ticks_final_bounded [OF this, of lo fl world n]
  have "length (temp_history (final_state (run_ticks lo fl world n a0))) \<le> 60"
    "length (time_history (final_state (run_ticks lo fl world n a0))) \<le> 60"
    by (simp_all add: history_bounded_def DEFAULT_HISTORY_def)
  moreover have "deque_append DEFAULT_HISTORY d x = tl d @ [x]" if "length d = 60"
    for d :: "real list" and x
    using deque_append_full [of d x] that by (simp add: DEFAULT_HISTORY_def)
  moreover have "deque_append DEFAULT_HISTORY d x = d @ [x]" if "length d < 60"
    for d :: "real list" and x
    using deque_append_room [of d x] that by (simp add: DEFAULT_HISTORY_def)
  ultimately show ?thesis using appended by blast
qed

lemma init_three:
  "init_app plain_lower decimal_ops empty_service [london, paris, tokyo] (city_env 0 NoResponse)
     = Inr three_cities"
proof -
  have "\<not> FLOAT_LIMIT \<le> 20" using float_limit_large by simp
  then show ?thesis
    by (simp add: init_app_def get_weather_data_def get_weather_def fetch_from_api_def
        empty_service_def city_env_def answer_at_def append_data_eq deque_append_def
        DEFAULT_HISTORY_def decimal_ops_def three_cities_def dummy_data_def Let_def)
qed

theorem history_never_exceeds_capacity_witness:
  "init_app plain_lower decimal_ops empty_service [london, paris, tokyo] (city_env 0 NoResponse)
     = Inr three_cities
   \<and> length (temp_history (final_state
        (run_ticks plain_lower decimal_ops (\<lambda>i. paris_fails) 100 three_cities))) \<le> 60
   \<and> length (time_history (final_state
        (run_ticks plain_lower decimal_ops (\<lambda>i. paris_fails) 100 three_cities))) \<le> 60
   \<and> deque_append DEFAULT_HISTORY (replicate 60 (20::real)) 21 = replicate 59 20 @ [21]
   \<and> temp_history (final_state (update_city plain_lower decimal_ops
        (city_env 1000 (Response 200 (Some london_body))) london three_cities)) = [20, 25 / 2]
   \<and> time_history (final_state (update_city plain_lower decimal_ops
        (city_env 1000 (Response 200 (Some london_body))) london three_cities)) = [0, 1000]"
proof -
  note t = history_never_exceeds_capacity [OF init_three, of "\<lambda>i. paris_fails" 100]
  let ?env = "city_env 1000 (Response 200 (Some london_body))"
  have g: "fst (get_weather_data plain_lower decimal_ops (service three_cities)
      (graphed_city three_cities) (call ?env)) = Inr london_reading"
    using fetch_three_london by (simp add: get_weather_data_fst three_fields)
  from update_city_shown [OF g [unfolded three_fields] three_rows(1)] london_in_range
  obtain a' where a': "update_city plain_lower decimal_ops ?env (graphed_city three_cities)
      three_cities = Inr a'"
    by (auto simp: three_fields)
  from t a' g have "temp_history a' = deque_append DEFAULT_HISTORY (temp_history three_cities)
                 (round1 decimal_ops (fadd decimal_ops (temperature london_reading)
                    (round1 decimal_ops (jitter ?env))))
           \<and> time_history a' = deque_append DEFAULT_HISTORY (time_history three_cities) (clock ?env)"
    by blast
  then have h: "temp_history (final_state (update_city plain_lower decimal_ops ?env london
        three_cities)) = [20, 25 / 2]"
    "time_history (final_state (update_city plain_lower decimal_ops ?env london
        three_cities)) = [0, 1000]"
    using a' by (simp_all add: three_fields final_state_def three_cities_def deque_append_def
        DEFAULT_HISTORY_def decimal_ops_def london_reading_def city_env_def)
  from t have "deque_append DEFAULT_HISTORY (replicate 60 (20::real)) 21
      = tl (replicate 60 20) @ [21]"
    by simp
  also have "tl (replicate 60 (20::real)) = replicate 59 20"
    by (simp add: tl_replicate)
  finally show ?thesis using t init_three h by blast
qed

end
